theory Spec2Isabelle
  imports Main "HOL-Library.AList"
begin

section \<open>Python values, strings and dictionaries\<close>

text \<open>
  The module \<^verbatim>\<open>synthetic_solar.py\<close> assembles sensor configurations from a panel
  snapshot and from YAML templates rendered by a collaborator. Its functions are embedded
  here one by one. A Python \<^verbatim>\<open>dict\<close> is an association list in insertion order whose
  item assignment is \<open>AList.update\<close>; an exception is the left injection of a sum.
\<close>

datatype py_error = ValueError | AttributeError | KeyError | TypeError | RenderError

type_synonym ('k, 'v) dict = "('k \<times> 'v) list"

text \<open>
  What the template renderer hands back is dynamically typed, and the module probes it
  with truthiness tests, \<^verbatim>\<open>isinstance\<close> and key lookups.
\<close>

datatype pyval =
    PNone
  | PBool bool
  | PInt int
  | PStr string
  | PList "pyval list"
  | PDict "(string \<times> pyval) list"

fun truthy :: "pyval \<Rightarrow> bool" where
  "truthy PNone = False"
| "truthy (PBool b) = b"
| "truthy (PInt i) = (i \<noteq> 0)"
| "truthy (PStr s) = (s \<noteq> [])"
| "truthy (PList xs) = (xs \<noteq> [])"
| "truthy (PDict kvs) = (kvs \<noteq> [])"

text \<open>
  Template variables are \<^verbatim>\<open>dict[str, Any]\<close>; the values this module builds or tests
  for are \<^verbatim>\<open>None\<close>, strings and integers (floats are left out).
\<close>

datatype tval = TNone | TStr string | TInt int

fun tval_truthy :: "tval \<Rightarrow> bool" where
  "tval_truthy TNone = False"
| "tval_truthy (TStr s) = (s \<noteq> [])"
| "tval_truthy (TInt i) = (i \<noteq> 0)"

subsection \<open>\<^verbatim>\<open>str\<close> and \<^verbatim>\<open>int\<close> on decimal numerals\<close>

definition digit_char :: "nat \<Rightarrow> char" where
  "digit_char d = ''0123456789'' ! d"

fun str_nat :: "nat \<Rightarrow> string" where
  "str_nat n = (if n < 10 then [digit_char n] else str_nat (n div 10) @ [digit_char (n mod 10)])"

declare str_nat.simps [simp del]

definition str_int :: "int \<Rightarrow> string" where
  "str_int i = (if i < 0 then CHR ''-'' # str_nat (nat (- i)) else str_nat (nat i))"

fun tval_str :: "tval \<Rightarrow> string" where
  "tval_str TNone = ''None''"
| "tval_str (TStr s) = s"
| "tval_str (TInt i) = str_int i"

definition is_digit :: "char \<Rightarrow> bool" where
  "is_digit c = (c \<in> set ''0123456789'')"

definition digit_val :: "char \<Rightarrow> nat" where
  "digit_val c = of_char c - 48"

text \<open>
  A \<open>char\<close> stands for a code point below 256. Among these, Python's whitespace is
  the ASCII whitespace, the separators \<^verbatim>\<open>0x1C\<close> to \<^verbatim>\<open>0x1F\<close>, \<^verbatim>\<open>0x85\<close> and \<^verbatim>\<open>0xA0\<close>,
  and the only decimal digits are \<^verbatim>\<open>0\<close> to \<^verbatim>\<open>9\<close>.
\<close>

definition is_space :: "char \<Rightarrow> bool" where
  "is_space c =
     (c \<in> set [CHR '' '', CHR 0x09, CHR 0x0A, CHR 0x0B, CHR 0x0C, CHR 0x0D,
                 CHR 0x1C, CHR 0x1D, CHR 0x1E, CHR 0x1F, CHR 0x85, CHR 0xA0])"

definition strip :: "string \<Rightarrow> string" where
  "strip s = rev (dropWhile is_space (rev (dropWhile is_space s)))"

text \<open>Splitting at a separator character, as \<^verbatim>\<open>s.split("_")\<close> does.\<close>

fun split_at :: "char \<Rightarrow> string \<Rightarrow> string list" where
  "split_at sep [] = [[]]"
| "split_at sep (c # cs) =
     (if c = sep then [] # split_at sep cs
      else (case split_at sep cs of [] \<Rightarrow> [[c]] | g # gs \<Rightarrow> (c # g) # gs))"

definition digits_val :: "string \<Rightarrow> nat" where
  "digits_val ds = foldl (\<lambda>acc c. 10 * acc + digit_val c) 0 ds"

text \<open>
  \<^verbatim>\<open>int(s)\<close>: surrounding whitespace is dropped, one sign is allowed, and the digits
  may be grouped by single underscores. Anything else raises \<^verbatim>\<open>ValueError\<close>, and so
  does a numeral of more than 4300 digits, the default limit of CPython for the
  conversion of strings to integers.
\<close>

definition max_str_digits :: nat where
  "max_str_digits = 4300"

definition parse_digits :: "string \<Rightarrow> py_error + nat" where
  "parse_digits s =
     (let groups = split_at CHR ''_'' s
      in if (\<forall>g \<in> set groups. g \<noteq> [] \<and> (\<forall>c \<in> set g. is_digit c))
            \<and> length (concat groups) \<le> max_str_digits
         then Inr (digits_val (concat groups))
         else Inl ValueError)"

definition py_int :: "string \<Rightarrow> py_error + int" where
  "py_int s =
     (case strip s of
        [] \<Rightarrow> Inl ValueError
      | c # cs \<Rightarrow>
          if c = CHR ''-'' then
            (case parse_digits cs of Inl e \<Rightarrow> Inl e | Inr n \<Rightarrow> Inr (- int n))
          else if c = CHR ''+'' then
            (case parse_digits cs of Inl e \<Rightarrow> Inl e | Inr n \<Rightarrow> Inr (int n))
          else
            (case parse_digits (c # cs) of Inl e \<Rightarrow> Inl e | Inr n \<Rightarrow> Inr (int n)))"

subsection \<open>String helpers\<close>

definition startswith :: "string \<Rightarrow> string \<Rightarrow> bool" where
  "startswith s p = (take (length p) s = p)"

text \<open>\<^verbatim>\<open>sub in s\<close> on strings.\<close>

fun py_in :: "string \<Rightarrow> string \<Rightarrow> bool" where
  "py_in sub [] = (sub = [])"
| "py_in sub (c # cs) = (startswith (c # cs) sub \<or> py_in sub cs)"

text \<open>
  \<^verbatim>\<open>s.replace(p, "")\<close> for a non-empty pattern: every occurrence is removed, scanning
  from the left.
\<close>

function remove_all :: "string \<Rightarrow> string \<Rightarrow> string" where
  "remove_all p [] = []"
| "remove_all p (c # cs) =
     (if p \<noteq> [] \<and> startswith (c # cs) p then remove_all p (drop (length p) (c # cs))
      else c # remove_all p cs)"
  by pat_completeness auto
termination
  by (relation "measure (\<lambda>(p, s). length s)") (auto simp: startswith_def)

fun join :: "string \<Rightarrow> string list \<Rightarrow> string" where
  "join sep [] = []"
| "join sep [x] = x"
| "join sep (x # y # ys) = x @ sep @ join sep (y # ys)"

section \<open>The panel snapshot and the collaborators\<close>

text \<open>
  A circuit as \<^verbatim>\<open>SpanPanelCircuit\<close> is constructed in this module. The probe
  \<^verbatim>\<open>hasattr(circuit, 'tabs')\<close> makes the tab list an optional field. The three
  float-valued measurement fields are never read here and are left out.
\<close>

record circuit =
  circuit_id :: string
  name :: string
  relay_state :: string
  instant_power_update_time :: int
  energy_accum_update_time :: int
  priority :: string
  is_user_controllable :: bool
  is_sheddable :: bool
  is_never_backup :: bool
  tabs :: "int list option"

text \<open>\<^verbatim>\<open>BackingEntity\<close> is declared in \<^verbatim>\<open>synthetic_utils\<close>; this module never builds one.\<close>

datatype backing_entity = BackingEntity string

text \<open>
  The arguments \<^verbatim>\<open>coordinator\<close> and \<^verbatim>\<open>span_panel\<close> and the imported helpers are gathered
  in one record. The helpers are the functions of \<^verbatim>\<open>helpers.py\<close>, \<^verbatim>\<open>util.py\<close> and
  \<^verbatim>\<open>synthetic_utils.py\<close>, already applied to the coordinator and the panel where they
  take them. Only the template renderer is asynchronous: it reads and returns a state
  \<open>'w\<close> of its own, and it may raise.
\<close>

record 'w env =
  circuits :: "(string, circuit) dict"
  serial_number :: string
  options :: "(string, int) dict"
  panel_to_device_info :: "(string, string option) dict"
  slugify :: "string \<Rightarrow> string"
  get_unmapped_circuit_entity_id :: "int \<Rightarrow> string \<Rightarrow> string option"
  construct_120v_synthetic_entity_id ::
    "string \<Rightarrow> string \<Rightarrow> string \<Rightarrow> int \<Rightarrow> string option \<Rightarrow> string option"
  construct_240v_synthetic_entity_id ::
    "string \<Rightarrow> string \<Rightarrow> string \<Rightarrow> int \<Rightarrow> int \<Rightarrow> string option \<Rightarrow> string option"
  construct_synthetic_unique_id :: "string \<Rightarrow> string \<Rightarrow> string"
  construct_tabs_attribute :: "circuit \<Rightarrow> string option"
  construct_voltage_attribute :: "circuit \<Rightarrow> int option"
  combine_yaml_templates ::
    "string list \<Rightarrow> (string, string) dict \<Rightarrow> 'w \<Rightarrow> (py_error + pyval) \<times> 'w"

subsection \<open>The world: renderer state and the log\<close>

text \<open>
  Every \<^verbatim>\<open>_LOGGER.error\<close> and \<^verbatim>\<open>_LOGGER.warning\<close> call appends its level and format
  string to the log. The \<^verbatim>\<open>_LOGGER.debug\<close> calls are not recorded.
\<close>

datatype log_level = WARNING | ERROR

record 'w world =
  render_state :: 'w
  log :: "(log_level \<times> string) list"

definition emit :: "log_level \<Rightarrow> string \<Rightarrow> 'w world \<Rightarrow> 'w world" where
  "emit lvl msg w = w\<lparr>log := log w @ [(lvl, msg)]\<rparr>"

definition await_combine ::
  "'w env \<Rightarrow> string list \<Rightarrow> (string, string) dict \<Rightarrow> 'w world \<Rightarrow> (py_error + pyval) \<times> 'w world"
where
  "await_combine env files vars w =
     (case combine_yaml_templates env files vars (render_state w) of
        (r, s') \<Rightarrow> (r, w\<lparr>render_state := s'\<rparr>))"

section \<open>Leg number extraction\<close>

definition tab_of_leg :: "string \<Rightarrow> py_error + int" where
  "tab_of_leg leg = py_int (remove_all ''unmapped_tab_'' leg)"

definition extract_leg_numbers :: "string \<Rightarrow> string \<Rightarrow> py_error + (int \<times> int)" where
  "extract_leg_numbers leg1_circuit leg2_circuit =
     (case (if startswith leg1_circuit ''unmapped_tab_'' then tab_of_leg leg1_circuit
            else Inr 0) of
        Inl e \<Rightarrow> Inl e
      | Inr leg1_number \<Rightarrow>
          (case (if leg2_circuit \<noteq> [] \<and> startswith leg2_circuit ''unmapped_tab_''
                 then tab_of_leg leg2_circuit else Inr 0) of
             Inl e \<Rightarrow> Inl e
           | Inr leg2_number \<Rightarrow> Inr (leg1_number, leg2_number)))"

section \<open>Entity resolution for the legs\<close>

definition device_name_of :: "'w env \<Rightarrow> string" where
  "device_name_of env =
     (let device_name_raw =
            (case map_of (panel_to_device_info env) ''name'' of
               None \<Rightarrow> Some ''span_panel'' | Some v \<Rightarrow> v)
      in case device_name_raw of
           None \<Rightarrow> ''span_panel''
         | Some raw \<Rightarrow> if raw \<noteq> [] then slugify env raw else ''span_panel'')"

text \<open>
  The loop over \<^verbatim>\<open>span_panel.circuits.items()\<close>: the first circuit whose tab list holds
  the tab decides; past the last circuit the unmapped helper is asked.
\<close>

fun circuit_entity_id_loop ::
  "'w env \<Rightarrow> int \<Rightarrow> string \<Rightarrow> (string, circuit) dict \<Rightarrow> string option"
where
  "circuit_entity_id_loop env tab_number suffix [] =
     get_unmapped_circuit_entity_id env tab_number suffix"
| "circuit_entity_id_loop env tab_number suffix ((cid, c) # rest) =
     (case tabs c of
        None \<Rightarrow> circuit_entity_id_loop env tab_number suffix rest
      | Some ts \<Rightarrow>
          if ts \<noteq> [] \<and> tab_number \<in> set ts then
            (let device_name = device_name_of env
             in if length ts = 1 then
                  Some (''sensor.'' @ device_name @ ''_circuit_'' @ str_int tab_number
                        @ ''_'' @ suffix)
                else
                  (let sorted_tabs = sort ts;
                       tabs_str = join ''_'' (map str_int sorted_tabs)
                   in Some (''sensor.'' @ device_name @ ''_circuit_'' @ tabs_str
                            @ ''_'' @ suffix)))
          else circuit_entity_id_loop env tab_number suffix rest)"

definition get_circuit_entity_id :: "'w env \<Rightarrow> int \<Rightarrow> string \<Rightarrow> string option" where
  "get_circuit_entity_id env tab_number suffix =
     circuit_entity_id_loop env tab_number suffix (circuits env)"

text \<open>\<^verbatim>\<open>x or ""\<close> and the truthiness of an optional string.\<close>

definition or_empty :: "string option \<Rightarrow> string" where
  "or_empty e = (case e of None \<Rightarrow> [] | Some s \<Rightarrow> s)"

definition str_truthy :: "string option \<Rightarrow> bool" where
  "str_truthy e = (case e of None \<Rightarrow> False | Some s \<Rightarrow> s \<noteq> [])"

text \<open>
  One leg of \<^verbatim>\<open>_get_leg_entities\<close>: the three entity ids, the ids that are strings,
  and the two error lines when some id is missing or empty.
\<close>

definition leg_entity_ids ::
  "'w env \<Rightarrow> nat \<Rightarrow> int \<Rightarrow> 'w world
     \<Rightarrow> (string option \<times> string option \<times> string option) \<times> string list \<times> 'w world"
where
  "leg_entity_ids env leg leg_number w =
     (if leg_number > 0 then
        (let power_entity = get_circuit_entity_id env leg_number ''power'';
             produced_entity = get_circuit_entity_id env leg_number ''energy_produced'';
             consumed_entity = get_circuit_entity_id env leg_number ''energy_consumed'';
             found = concat (map (\<lambda>e. case e of None \<Rightarrow> [] | Some s \<Rightarrow> [s])
                        [power_entity, produced_entity, consumed_entity]);
             w' = (if \<not> (str_truthy power_entity \<and> str_truthy produced_entity
                          \<and> str_truthy consumed_entity)
                   then emit ERROR ''Generated: power=%s, produced=%s, consumed=%s''
                          (emit ERROR
                             (''Failed to generate some leg'' @ str_nat leg
                              @ '' entity IDs for tab %s'') w)
                   else w)
         in ((power_entity, produced_entity, consumed_entity), found, w'))
      else ((None, None, None), [], w))"

definition get_leg_entities ::
  "'w env \<Rightarrow> int \<Rightarrow> int \<Rightarrow> 'w world \<Rightarrow> ((string, tval) dict \<times> string list) \<times> 'w world"
where
  "get_leg_entities env leg1_number leg2_number w =
     (case leg_entity_ids env 1 leg1_number w of
        ((leg1_power_entity, leg1_produced_entity, leg1_consumed_entity), req1, w1) \<Rightarrow>
     (case leg_entity_ids env 2 leg2_number w1 of
        ((leg2_power_entity, leg2_produced_entity, leg2_consumed_entity), req2, w2) \<Rightarrow>
        (([(''leg1_power_entity'', TStr (or_empty leg1_power_entity)),
           (''leg1_produced_entity'', TStr (or_empty leg1_produced_entity)),
           (''leg1_consumed_entity'', TStr (or_empty leg1_consumed_entity)),
           (''leg2_power_entity'', TStr (or_empty leg2_power_entity)),
           (''leg2_produced_entity'', TStr (or_empty leg2_produced_entity)),
           (''leg2_consumed_entity'', TStr (or_empty leg2_consumed_entity))],
          req1 @ req2), w2)))"

section \<open>Template attributes and the sensor's own entity id\<close>

definition synthetic_circuit :: "int \<Rightarrow> int \<Rightarrow> circuit" where
  "synthetic_circuit leg1_number leg2_number =
     \<lparr>circuit_id = ''solar_synthetic'', name = ''Solar Synthetic'', relay_state = ''CLOSED'',
      instant_power_update_time = 0, energy_accum_update_time = 0, priority = ''NORMAL'',
      is_user_controllable = False, is_sheddable = False, is_never_backup = False,
      tabs = Some [leg1_number, leg2_number]\<rparr>"

definition get_template_attributes :: "'w env \<Rightarrow> int \<Rightarrow> int \<Rightarrow> string \<times> int" where
  "get_template_attributes env leg1_number leg2_number =
     (if leg1_number > 0 \<and> leg2_number > 0 then
        (let tabs_attribute_full =
               construct_tabs_attribute env (synthetic_circuit leg1_number leg2_number);
             voltage_attribute =
               construct_voltage_attribute env (synthetic_circuit leg1_number leg2_number)
         in (if str_truthy tabs_attribute_full then or_empty tabs_attribute_full else [],
             case voltage_attribute of None \<Rightarrow> 0 | Some v \<Rightarrow> v))
      else ([], 0))"

definition generate_sensor_entity_id ::
  "'w env \<Rightarrow> string \<Rightarrow> int \<Rightarrow> int \<Rightarrow> string option"
where
  "generate_sensor_entity_id env sensor_type leg1_number leg2_number =
     (if leg1_number > 0 \<and> leg2_number > 0 then
        construct_240v_synthetic_entity_id env ''sensor'' sensor_type ''Solar''
          leg1_number leg2_number None
      else
        (let active_tab = (if leg1_number > 0 then leg1_number else leg2_number)
         in construct_120v_synthetic_entity_id env ''sensor'' sensor_type ''Solar''
              active_tab None))"

section \<open>The template processor\<close>

record sensor_def =
  template :: string
  sensor_type :: string
  description :: string

definition SOLAR_SENSOR_DEFINITIONS :: "sensor_def list" where
  "SOLAR_SENSOR_DEFINITIONS =
     [\<lparr>template = ''solar_current_power.yaml.txt'', sensor_type = ''power'',
       description = ''Current solar power production''\<rparr>,
      \<lparr>template = ''solar_produced_energy.yaml.txt'', sensor_type = ''energy_produced'',
       description = ''Total solar energy produced''\<rparr>,
      \<lparr>template = ''solar_consumed_energy.yaml.txt'', sensor_type = ''energy_consumed'',
       description = ''Total solar energy consumed''\<rparr>]"

definition required_vars :: "sensor_def \<Rightarrow> string list" where
  "required_vars sd =
     (if py_in ''power'' (sensor_type sd) then [''leg1_power_entity'', ''leg2_power_entity'']
      else if py_in ''produced'' (sensor_type sd)
        then [''leg1_produced_entity'', ''leg2_produced_entity'']
      else if py_in ''consumed'' (sensor_type sd)
        then [''leg1_consumed_entity'', ''leg2_consumed_entity'']
      else [])"

text \<open>
  The test \<^verbatim>\<open>not template_vars.get(var) or template_vars[var] == ""\<close> on one variable.
\<close>

definition var_missing :: "(string, tval) dict \<Rightarrow> string \<Rightarrow> bool" where
  "var_missing template_vars var =
     (case map_of template_vars var of
        None \<Rightarrow> True
      | Some v \<Rightarrow> \<not> tval_truthy v \<or> v = TStr [])"

text \<open>The stringification loop: \<^verbatim>\<open>None\<close> becomes the empty string, the rest \<^verbatim>\<open>str(value)\<close>.\<close>

definition stringify :: "tval \<Rightarrow> string" where
  "stringify v = (if v \<noteq> TNone then tval_str v else [])"

definition is_dict :: "pyval \<Rightarrow> bool" where
  "is_dict v = (case v of PDict kvs \<Rightarrow> True | _ \<Rightarrow> False)"

definition dict_lookup :: "pyval \<Rightarrow> string \<Rightarrow> pyval option" where
  "dict_lookup v k = (case v of PDict kvs \<Rightarrow> map_of kvs k | _ \<Rightarrow> None)"

definition py_get :: "('k, 'v) dict \<Rightarrow> 'k \<Rightarrow> 'v \<Rightarrow> 'v" where
  "py_get d k dflt = (case map_of d k of None \<Rightarrow> dflt | Some v \<Rightarrow> v)"

text \<open>
  From the first entry of \<^verbatim>\<open>sensor_configs\<close> to the returned record. \<^verbatim>\<open>.keys()\<close>,
  \<^verbatim>\<open>.copy()\<close> and \<^verbatim>\<open>.get\<close> exist on a \<^verbatim>\<open>dict\<close>; on any other value one of them
  raises \<^verbatim>\<open>AttributeError\<close>.
\<close>

definition final_sensor_config :: "pyval \<Rightarrow> string \<Rightarrow> py_error + (string, pyval) dict" where
  "final_sensor_config template_sensors entity_id =
     (case template_sensors of
        PDict ((sensor_key, PDict sensor_config) # rest) \<Rightarrow>
          Inr [(''entity_id'', py_get sensor_config ''entity_id'' (PStr entity_id)),
               (''name'', py_get sensor_config ''name'' (PStr [])),
               (''formula'', py_get sensor_config ''formula'' (PStr [])),
               (''variables'', py_get sensor_config ''variables'' (PDict [])),
               (''attributes'', py_get sensor_config ''attributes'' (PDict [])),
               (''metadata'', py_get sensor_config ''metadata'' (PDict []))]
      | _ \<Rightarrow> Inl AttributeError)"

definition process_sensor_template ::
  "'w env \<Rightarrow> sensor_def \<Rightarrow> (string, tval) dict \<Rightarrow> string option \<Rightarrow> 'w world
     \<Rightarrow> (py_error + (string, pyval) dict option) \<times> 'w world"
where
  "process_sensor_template env sd template_vars entity_id w =
     (case entity_id of
        None \<Rightarrow> (Inr None, w)
      | Some eid \<Rightarrow>
          if eid = [] then (Inr None, w)
          else if \<exists>var \<in> set (required_vars sd). var_missing template_vars var then
            (Inr None,
             emit ERROR
               (''Missing or empty required variable '' @ [CHR 0x27] @ ''%s'' @ [CHR 0x27]
                @ '' for sensor template %s. Variables: %s'')
               w)
          else
            (let sensor_template_vars = AList.update ''entity_id'' (TStr eid) template_vars;
                 string_template_vars =
                   map (\<lambda>(key, v). (key, stringify v)) sensor_template_vars
             in case await_combine env [template sd] string_template_vars w of
                  (Inl template_error, w1) \<Rightarrow>
                    (Inr None, emit ERROR ''Template processing failed for %s: %s'' w1)
                | (Inr combined_result, w1) \<Rightarrow>
                    if \<not> truthy combined_result \<or> \<not> is_dict combined_result
                       \<or> dict_lookup combined_result ''sensor_configs'' = None
                    then (Inr None,
                          emit ERROR ''No sensors found in template %s. Combined result: %r'' w1)
                    else
                      (case dict_lookup combined_result ''sensor_configs'' of
                         None \<Rightarrow> (Inl KeyError, w1)
                       | Some template_sensors \<Rightarrow>
                           if \<not> truthy template_sensors then
                             (Inr None,
                              emit ERROR
                                ''Empty sensors in template %s. Template sensors: %r'' w1)
                           else
                             (case final_sensor_config template_sensors eid of
                                Inl e \<Rightarrow> (Inl e, w1)
                              | Inr cfg \<Rightarrow> (Inr (Some cfg), w1)))))"

section \<open>The orchestrator\<close>

type_synonym sensor_configs = "(string, (string, pyval) dict) dict"

text \<open>
  The first \<^verbatim>\<open>try\<close> block of \<^verbatim>\<open>generate_solar_sensors\<close>: the header template is rendered
  with an empty file list; a raise is logged as a warning and leaves the settings empty.
\<close>

definition load_global_settings :: "'w env \<Rightarrow> 'w world \<Rightarrow> pyval \<times> 'w world" where
  "load_global_settings env w =
     (let power_precision = py_get (options env) ''power_display_precision'' 0;
          energy_precision = py_get (options env) ''energy_display_precision'' 2;
          header_placeholders =
            [(''device_identifier'', serial_number env),
             (''power_display_precision'', str_int power_precision),
             (''energy_display_precision'', str_int energy_precision)]
      in case await_combine env [] header_placeholders w of
           (Inl e, w1) \<Rightarrow>
             (PDict [],
              emit WARNING ''Could not load global settings for solar sensors: %s'' w1)
         | (Inr combined_result, w1) \<Rightarrow>
             (case dict_lookup combined_result ''global_settings'' of
                None \<Rightarrow> (PDict [], w1)
              | Some gs \<Rightarrow>
                  if truthy combined_result \<and> is_dict combined_result \<and> gs \<noteq> PNone
                  then (gs, w1) else (PDict [], w1)))"

text \<open>A dict display \<^verbatim>\<open>{..., **extra}\<close>: the items of \<open>extra\<close> are assigned in order.\<close>

definition dict_merge :: "('k, 'v) dict \<Rightarrow> ('k, 'v) dict \<Rightarrow> ('k, 'v) dict" where
  "dict_merge base extra = foldl (\<lambda>d (k, v). AList.update k v d) base extra"

definition solar_template_vars ::
  "'w env \<Rightarrow> string \<Rightarrow> string \<Rightarrow> string \<Rightarrow> int \<Rightarrow> (string, tval) dict
     \<Rightarrow> (string, tval) dict"
where
  "solar_template_vars env leg1_circuit leg2_circuit tabs_attribute voltage_attribute
       leg_entities =
     dict_merge
       [(''device_identifier'', TStr (serial_number env)),
        (''power_display_precision'',
           TStr (str_int (py_get (options env) ''power_display_precision'' 0))),
        (''energy_display_precision'',
           TStr (str_int (py_get (options env) ''energy_display_precision'' 2))),
        (''leg1_circuit'', TStr leg1_circuit),
        (''leg2_circuit'', TStr leg2_circuit),
        (''tabs_attribute'', TStr tabs_attribute),
        (''voltage_attribute'', TStr (str_int voltage_attribute))]
       leg_entities"

text \<open>
  The loop over the sensor definitions. Its \<^verbatim>\<open>try\<close> block catches whatever the
  template processor raises; \<^verbatim>\<open>if final_config\<close> is the truthiness of the returned dict.
\<close>

fun generate_loop ::
  "'w env \<Rightarrow> (string, tval) dict \<Rightarrow> int \<Rightarrow> int \<Rightarrow> sensor_def list \<Rightarrow> sensor_configs
     \<Rightarrow> 'w world \<Rightarrow> sensor_configs \<times> 'w world"
where
  "generate_loop env template_vars leg1_number leg2_number [] sensor_configs w =
     (sensor_configs, w)"
| "generate_loop env template_vars leg1_number leg2_number (sd # sds) sensor_configs w =
     (let entity_id = generate_sensor_entity_id env (sensor_type sd) leg1_number leg2_number;
          unique_id = construct_synthetic_unique_id env (serial_number env)
                        (''solar_'' @ sensor_type sd)
      in case process_sensor_template env sd template_vars entity_id w of
           (Inl e, w1) \<Rightarrow>
             generate_loop env template_vars leg1_number leg2_number sds sensor_configs
               (emit ERROR ''Error generating solar sensor from template %s: %s'' w1)
         | (Inr None, w1) \<Rightarrow>
             generate_loop env template_vars leg1_number leg2_number sds sensor_configs
               (emit ERROR ''Template processing returned None for %s'' w1)
         | (Inr (Some final_config), w1) \<Rightarrow>
             if final_config \<noteq> [] then
               generate_loop env template_vars leg1_number leg2_number sds
                 (AList.update unique_id final_config sensor_configs) w1
             else
               generate_loop env template_vars leg1_number leg2_number sds sensor_configs
                 (emit ERROR ''Template processing returned None for %s'' w1))"

definition generate_solar_sensors ::
  "'w env \<Rightarrow> string \<Rightarrow> string \<Rightarrow> string \<Rightarrow> 'w world
     \<Rightarrow> (py_error + (sensor_configs \<times> backing_entity list \<times> pyval)) \<times> 'w world"
where
  "generate_solar_sensors env leg1_circuit leg2_circuit device_name w =
     (let backing_entities = []
      in case load_global_settings env w of
        (global_settings, w0) \<Rightarrow>
     (case extract_leg_numbers leg1_circuit leg2_circuit of
        Inl e \<Rightarrow> (Inl e, w0)
      | Inr (leg1_number, leg2_number) \<Rightarrow>
          if leg1_number = 0 \<and> leg2_number = 0 then (Inr ([], [], global_settings), w0)
          else
            (case get_leg_entities env leg1_number leg2_number w0 of
               ((leg_entities, required_entities), w1) \<Rightarrow>
                 if required_entities = [] then
                   (Inr ([], [], global_settings),
                    emit ERROR ''No valid entities found for solar circuits %s and %s'' w1)
                 else if filter (\<lambda>entity. entity = []) required_entities \<noteq> [] then
                   (Inr ([], [], global_settings),
                    emit ERROR
                      ''Some entity IDs are invalid for solar circuits %s and %s: %s'' w1)
                 else
                   (case get_template_attributes env leg1_number leg2_number of
                      (tabs_attribute, voltage_attribute) \<Rightarrow>
                   (case generate_loop env
                           (solar_template_vars env leg1_circuit leg2_circuit tabs_attribute
                              voltage_attribute leg_entities)
                           leg1_number leg2_number SOLAR_SENSOR_DEFINITIONS [] w1 of
                      (sensor_configs, w2) \<Rightarrow>
                        (Inr (sensor_configs, backing_entities, global_settings), w2))))))"

section \<open>Quantities the properties refer to\<close>

text \<open>The key under which the loop stores the sensor of a definition.\<close>

definition solar_unique_id :: "'w env \<Rightarrow> sensor_def \<Rightarrow> string" where
  "solar_unique_id env sd =
     construct_synthetic_unique_id env (serial_number env) (''solar_'' @ sensor_type sd)"

text \<open>
  The world in which the loop reaches the \<open>i\<close>-th definition, and what the template
  processor returns for that definition there.
\<close>

definition world_before ::
  "'w env \<Rightarrow> (string, tval) dict \<Rightarrow> int \<Rightarrow> int \<Rightarrow> sensor_def list \<Rightarrow> nat \<Rightarrow> 'w world
     \<Rightarrow> 'w world"
where
  "world_before env template_vars leg1_number leg2_number sds i w =
     snd (generate_loop env template_vars leg1_number leg2_number (take i sds) [] w)"

definition sensor_outcome ::
  "'w env \<Rightarrow> (string, tval) dict \<Rightarrow> int \<Rightarrow> int \<Rightarrow> sensor_def list \<Rightarrow> nat \<Rightarrow> 'w world
     \<Rightarrow> py_error + (string, pyval) dict option"
where
  "sensor_outcome env template_vars leg1_number leg2_number sds i w =
     fst (process_sensor_template env (sds ! i) template_vars
            (generate_sensor_entity_id env (sensor_type (sds ! i)) leg1_number leg2_number)
            (world_before env template_vars leg1_number leg2_number sds i w))"


text \<open>
  What the renderer answers when the template processor calls it for a definition with
  the entity id \<open>eid\<close>.
\<close>

definition render_outcome ::
  "'w env \<Rightarrow> sensor_def \<Rightarrow> (string, tval) dict \<Rightarrow> string \<Rightarrow> 'w world \<Rightarrow> py_error + pyval"
where
  "render_outcome env sd template_vars eid w =
     fst (await_combine env [template sd]
            (map (\<lambda>(key, v). (key, stringify v))
               (AList.update ''entity_id'' (TStr eid) template_vars)) w)"



text \<open>
  Modelled from the spec: the helper \<^verbatim>\<open>construct_tabs_attribute\<close> of \<^verbatim>\<open>helpers.py\<close> is
  not part of the sources at hand. The specification describes its result as the
  canonical string list of the circuit's tab numbers, sorted ascending (\<^verbatim>\<open>15_16\<close> for
  the tabs 15 and 16), and absent for a circuit without tabs.
\<close>

definition spec_construct_tabs_attribute :: "circuit \<Rightarrow> string option" where
  "spec_construct_tabs_attribute c =
     (case tabs c of
        None \<Rightarrow> None
      | Some ts \<Rightarrow> if ts = [] then None else Some (join ''_'' (map str_int (sort ts))))"

section \<open>An example installation\<close>

text \<open>
  A renderer that counts its calls, raises for the templates named in \<open>failing\<close>
  (\<^verbatim>\<open>header\<close> stands for the call with no template) and otherwise answers with one
  sensor, or with the global settings.
\<close>

definition example_render ::
  "string list \<Rightarrow> string list \<Rightarrow> (string, string) dict \<Rightarrow> nat \<Rightarrow> (py_error + pyval) \<times> nat"
where
  "example_render failing files vars calls =
     (case files of
        [] \<Rightarrow>
          (if ''header'' \<in> set failing then Inl RenderError
           else Inr (PDict [(''global_settings'',
                             PDict [(''device_identifier'',
                                     PStr (py_get vars ''device_identifier'' []))])]),
           Suc calls)
      | f # fs \<Rightarrow>
          (if f \<in> set failing then Inl RenderError
           else Inr (PDict [(''sensor_configs'',
                             PDict [(py_get vars ''entity_id'' [],
                                     PDict [(''name'', PStr ''Solar''),
                                            (''formula'', PStr ''leg1 + leg2'')])]),
                            (''global_settings'', PDict [])]),
           Suc calls))"

text \<open>
  A panel with the given circuits, whose unmapped helper resolves every tab except for
  the suffixes in \<open>unresolved\<close>.
\<close>

definition example_env :: "(string, circuit) dict \<Rightarrow> string list \<Rightarrow> string list \<Rightarrow> nat env" where
  "example_env circs failing unresolved =
     \<lparr>circuits = circs,
      serial_number = ''ABC123'',
      options = [],
      panel_to_device_info = [(''name'', Some ''Span Panel'')],
      slugify = (\<lambda>raw. ''span_panel''),
      get_unmapped_circuit_entity_id =
        (\<lambda>tab suffix. if suffix \<in> set unresolved then None
                       else Some (''sensor.span_panel_unmapped_tab_'' @ str_int tab
                                  @ ''_'' @ suffix)),
      construct_120v_synthetic_entity_id =
        (\<lambda>domain kind friendly tab uid.
            Some (domain @ ''.span_panel_solar_'' @ str_int tab @ ''_'' @ kind)),
      construct_240v_synthetic_entity_id =
        (\<lambda>domain kind friendly tab1 tab2 uid.
            Some (domain @ ''.span_panel_solar_'' @ str_int tab1 @ ''_'' @ str_int tab2
                  @ ''_'' @ kind)),
      construct_synthetic_unique_id = (\<lambda>serial kind. serial @ ''_'' @ kind),
      construct_tabs_attribute = spec_construct_tabs_attribute,
      construct_voltage_attribute =
        (\<lambda>c. case tabs c of Some [a] \<Rightarrow> Some 120 | Some [a, b] \<Rightarrow> Some 240 | _ \<Rightarrow> None),
      combine_yaml_templates = example_render failing\<rparr>"

definition example_world :: "nat world" where
  "example_world = \<lparr>render_state = 0, log = []\<rparr>"

definition example_circuit :: "string \<Rightarrow> int list \<Rightarrow> circuit" where
  "example_circuit cid ts = (synthetic_circuit 0 0)\<lparr>circuit_id := cid, tabs := Some ts\<rparr>"

text \<open>The record the example renderer leads to for a sensor with the given entity id.\<close>

definition example_sensor :: "string \<Rightarrow> (string, pyval) dict" where
  "example_sensor eid =
     [(''entity_id'', PStr eid), (''name'', PStr ''Solar''), (''formula'', PStr ''leg1 + leg2''),
      (''variables'', PDict []), (''attributes'', PDict []), (''metadata'', PDict [])]"

section \<open>Properties of the orchestrator's early exits\<close>

text \<open>
  Claim C2. For every pair of leg identifiers of which neither starts with
  \<^verbatim>\<open>unmapped_tab_\<close>, the extraction yields the pair (0, 0), and the generator returns an
  empty sensor mapping, an empty list of backing entities and the global settings that
  the header call loaded (which need not be empty).
\<close>

theorem unprefixed_legs_generate_nothing:
  assumes "\<not> startswith leg1_circuit ''unmapped_tab_''"
    and "\<not> startswith leg2_circuit ''unmapped_tab_''"
  shows "extract_leg_numbers leg1_circuit leg2_circuit = Inr (0, 0) \<and>
         generate_solar_sensors env leg1_circuit leg2_circuit device_name w =
           (Inr ([], [], fst (load_global_settings env w)), snd (load_global_settings env w))"
  using assms
  by (simp add: extract_leg_numbers_def generate_solar_sensors_def split: prod.splits)

theorem unprefixed_legs_generate_nothing_witness:
  "\<not> startswith ''circuit_7'' ''unmapped_tab_'' \<and> \<not> startswith [] ''unmapped_tab_'' \<and>
   extract_leg_numbers ''circuit_7'' [] = Inr (0, 0) \<and>
   generate_solar_sensors (example_env [] [] []) ''circuit_7'' [] ''Span Panel'' example_world =
     (Inr ([], [], PDict [(''device_identifier'', PStr ''ABC123'')]),
      \<lparr>render_state = 1, log = []\<rparr>)"
proof -
  have h1: "\<not> startswith ''circuit_7'' ''unmapped_tab_''"
    by code_simp
  have h2: "\<not> startswith [] ''unmapped_tab_''"
    by code_simp
  have gs: "load_global_settings (example_env [] [] []) example_world =
              (PDict [(''device_identifier'', PStr ''ABC123'')], \<lparr>render_state = 1, log = []\<rparr>)"
    by code_simp
  show ?thesis
    using h1 h2
      unprefixed_legs_generate_nothing [OF h1 h2, of "example_env [] [] []" "''Span Panel''"
        example_world]
    by (simp add: gs)
qed

text \<open>
  Claim C9. Whatever the input, the backing-entity component of the value the generator
  returns is the empty list.
\<close>

theorem backing_entities_always_empty:
  "generate_solar_sensors env leg1_circuit leg2_circuit device_name w =
     (Inr (sensor_configs, backing_entities, global_settings), w')
   \<Longrightarrow> backing_entities = []"
  by (auto simp: generate_solar_sensors_def Let_def split: prod.splits sum.splits if_splits)

theorem backing_entities_always_empty_witness:
  "generate_solar_sensors (example_env [] [] []) ''unmapped_tab_15'' ''unmapped_tab_16''
       ''Span Panel'' example_world =
     (Inr ([(''ABC123_solar_power'', example_sensor ''sensor.span_panel_solar_15_16_power''),
            (''ABC123_solar_energy_produced'',
               example_sensor ''sensor.span_panel_solar_15_16_energy_produced''),
            (''ABC123_solar_energy_consumed'',
               example_sensor ''sensor.span_panel_solar_15_16_energy_consumed'')],
           [], PDict [(''device_identifier'', PStr ''ABC123'')]),
      \<lparr>render_state = 4, log = []\<rparr>)
   \<and> ([] :: backing_entity list) = []"
proof -
  have run: "generate_solar_sensors (example_env [] [] []) ''unmapped_tab_15''
       ''unmapped_tab_16'' ''Span Panel'' example_world =
     (Inr ([(''ABC123_solar_power'', example_sensor ''sensor.span_panel_solar_15_16_power''),
            (''ABC123_solar_energy_produced'',
               example_sensor ''sensor.span_panel_solar_15_16_energy_produced''),
            (''ABC123_solar_energy_consumed'',
               example_sensor ''sensor.span_panel_solar_15_16_energy_consumed'')],
           [], PDict [(''device_identifier'', PStr ''ABC123'')]),
      \<lparr>render_state = 4, log = []\<rparr>)"
    by code_simp
  show ?thesis
    using run backing_entities_always_empty [OF run] by simp
qed

section \<open>Entity resolution\<close>

lemma circuit_entity_id_loop_skip:
  assumes "\<forall>(cid', c') \<in> set pre. \<forall>ts'. tabs c' = Some ts' \<longrightarrow> t \<notin> set ts'"
  shows "circuit_entity_id_loop env t suffix (pre @ rest) =
         circuit_entity_id_loop env t suffix rest"
  using assms
  by (induction pre) (auto split: option.splits)

text \<open>
  Claim C4, as the code has it. The resolver takes the first circuit, in the order of the
  snapshot, whose tab list holds the queried tab. When that circuit spans more than one
  tab, the entity id is built from the circuit's tab numbers sorted ascending and joined
  by underscores, and it is the same for every tab of the circuit that no earlier circuit
  holds.
\<close>

theorem multi_tab_circuit_entity_id:
  assumes "circuits env = pre @ (cid, c) # post"
    and "tabs c = Some ts" and "length ts > 1"
    and "t \<in> set ts" and "t' \<in> set ts"
    and "\<forall>(cid', c') \<in> set pre. \<forall>ts'. tabs c' = Some ts' \<longrightarrow> t \<notin> set ts' \<and> t' \<notin> set ts'"
  shows "get_circuit_entity_id env t suffix =
           Some (''sensor.'' @ device_name_of env @ ''_circuit_''
                 @ join ''_'' (map str_int (sort ts)) @ ''_'' @ suffix)
         \<and> get_circuit_entity_id env t' suffix = get_circuit_entity_id env t suffix"
proof -
  have a: "\<forall>(cid', c') \<in> set pre. \<forall>ts'. tabs c' = Some ts' \<longrightarrow> t \<notin> set ts'"
    using assms(6) by fastforce
  have b: "\<forall>(cid', c') \<in> set pre. \<forall>ts'. tabs c' = Some ts' \<longrightarrow> t' \<notin> set ts'"
    using assms(6) by fastforce
  have ne: "ts \<noteq> []"
    using assms(3) by auto
  have "get_circuit_entity_id env t suffix =
          circuit_entity_id_loop env t suffix ((cid, c) # post)"
    by (simp add: get_circuit_entity_id_def assms(1) circuit_entity_id_loop_skip [OF a])
  moreover have "get_circuit_entity_id env t' suffix =
          circuit_entity_id_loop env t' suffix ((cid, c) # post)"
    by (simp add: get_circuit_entity_id_def assms(1) circuit_entity_id_loop_skip [OF b])
  ultimately show ?thesis
    using assms(2-5) ne by (simp add: Let_def)
qed

theorem multi_tab_circuit_entity_id_witness:
  "circuits (example_env [(''a'', example_circuit ''a'' [7]), (''b'', example_circuit ''b'' [5, 3])] [] [])
     = [(''a'', example_circuit ''a'' [7])] @ (''b'', example_circuit ''b'' [5, 3]) # []
   \<and> tabs (example_circuit ''b'' [5, 3]) = Some [5, 3] \<and> length [5, 3 :: int] > 1
   \<and> (3 :: int) \<in> set [5, 3] \<and> (5 :: int) \<in> set [5, 3]
   \<and> tabs (example_circuit ''a'' [7]) = Some [7]
   \<and> (3 :: int) \<notin> set [7] \<and> (5 :: int) \<notin> set [7]
   \<and> get_circuit_entity_id
         (example_env [(''a'', example_circuit ''a'' [7]), (''b'', example_circuit ''b'' [5, 3])] [] [])
         3 ''power'' = Some ''sensor.span_panel_circuit_3_5_power''
   \<and> get_circuit_entity_id
         (example_env [(''a'', example_circuit ''a'' [7]), (''b'', example_circuit ''b'' [5, 3])] [] [])
         5 ''power''
       = get_circuit_entity_id
         (example_env [(''a'', example_circuit ''a'' [7]), (''b'', example_circuit ''b'' [5, 3])] [] [])
         3 ''power''"
proof -
  let ?E = "example_env [(''a'', example_circuit ''a'' [7]), (''b'', example_circuit ''b'' [5, 3])] [] []"
  have h1: "circuits ?E = [(''a'', example_circuit ''a'' [7])] @ (''b'', example_circuit ''b'' [5, 3]) # []"
    by (simp add: example_env_def)
  have h2: "tabs (example_circuit ''b'' [5, 3]) = Some [5, 3]"
    by (simp add: example_circuit_def)
  have h3: "length [5, 3 :: int] > 1"
    by simp
  have h4: "(3 :: int) \<in> set [5, 3]"
    by simp
  have h5: "(5 :: int) \<in> set [5, 3]"
    by simp
  have h6: "\<forall>(cid', c') \<in> set [(''a'', example_circuit ''a'' [7])].
         \<forall>ts'. tabs c' = Some ts' \<longrightarrow> 3 \<notin> set ts' \<and> 5 \<notin> set ts'"
    by (simp add: example_circuit_def)
  have v: "''sensor.'' @ device_name_of ?E @ ''_circuit_'' @ join ''_'' (map str_int (sort [5, 3]))
           @ ''_'' @ ''power'' = ''sensor.span_panel_circuit_3_5_power''"
    by code_simp
  have h7: "tabs (example_circuit ''a'' [7]) = Some [7]"
    by (simp add: example_circuit_def)
  show ?thesis
    using h1 h2 h3 h4 h5 h7 multi_tab_circuit_entity_id [OF h1 h2 h3 h4 h5 h6, of "''power''"]
    unfolding v by simp
qed

text \<open>
  Claim C4, as the specification states it, fails where an earlier circuit holds the
  queried tab as well: tab 3 lies in the two-tab circuit \<open>b\<close>, yet it resolves through
  the single-tab circuit \<open>a\<close>, and to another id than tab 5 of the same circuit \<open>b\<close>.
\<close>

theorem multi_tab_circuit_entity_id_counterexample:
  "(''b'', example_circuit ''b'' [5, 3]) \<in>
      set (circuits (example_env [(''a'', example_circuit ''a'' [3]), (''b'', example_circuit ''b'' [5, 3])] [] []))
   \<and> tabs (example_circuit ''b'' [5, 3]) = Some [5, 3]
   \<and> (3 :: int) \<in> set [5, 3]
   \<and> get_circuit_entity_id
         (example_env [(''a'', example_circuit ''a'' [3]), (''b'', example_circuit ''b'' [5, 3])] [] [])
         3 ''power'' = Some ''sensor.span_panel_circuit_3_power''
   \<and> get_circuit_entity_id
         (example_env [(''a'', example_circuit ''a'' [3]), (''b'', example_circuit ''b'' [5, 3])] [] [])
         5 ''power'' = Some ''sensor.span_panel_circuit_3_5_power''"
  by (intro conjI; code_simp)

section \<open>Attributes and naming path\<close>

text \<open>
  Claim C5. With the tabs helper as the specification describes it: when both leg
  numbers are positive, the tabs attribute lists the two numbers in ascending order and
  the sensor's entity id comes from the dual-tab (240V) helper; otherwise the attributes
  are the empty tabs string and voltage zero, and the entity id comes from the single-tab
  (120V) helper, called with leg 1 when that is positive and with leg 2 if not.
\<close>

theorem template_attributes_and_naming_path:
  assumes "construct_tabs_attribute env = spec_construct_tabs_attribute"
  shows "(n1 > 0 \<and> n2 > 0 \<longrightarrow>
            fst (get_template_attributes env n1 n2) =
              str_int (min n1 n2) @ ''_'' @ str_int (max n1 n2)
            \<and> generate_sensor_entity_id env kind n1 n2 =
                construct_240v_synthetic_entity_id env ''sensor'' kind ''Solar'' n1 n2 None)
       \<and> (\<not> (n1 > 0 \<and> n2 > 0) \<longrightarrow>
            get_template_attributes env n1 n2 = ([], 0)
            \<and> generate_sensor_entity_id env kind n1 n2 =
                construct_120v_synthetic_entity_id env ''sensor'' kind ''Solar''
                  (if n1 > 0 then n1 else n2) None)"
proof -
  have ne: "str_nat n \<noteq> []" for n
    by (subst str_nat.simps) simp
  have "str_int i \<noteq> []" for i
    by (simp add: str_int_def ne)
  then show ?thesis
    using assms
    by (simp add: get_template_attributes_def generate_sensor_entity_id_def
        spec_construct_tabs_attribute_def synthetic_circuit_def str_truthy_def
        or_empty_def Let_def min_def max_def)
qed

theorem template_attributes_and_naming_path_witness:
  "construct_tabs_attribute (example_env [] [] []) = spec_construct_tabs_attribute
   \<and> (16 :: int) > 0 \<and> (15 :: int) > 0
   \<and> fst (get_template_attributes (example_env [] [] []) 16 15) = ''15_16''
   \<and> generate_sensor_entity_id (example_env [] [] []) ''power'' 16 15 =
        construct_240v_synthetic_entity_id (example_env [] [] []) ''sensor'' ''power'' ''Solar''
          16 15 None
   \<and> \<not> ((0 :: int) > 0 \<and> (15 :: int) > 0)
   \<and> get_template_attributes (example_env [] [] []) 0 15 = ([], 0)
   \<and> generate_sensor_entity_id (example_env [] [] []) ''power'' 0 15 =
        construct_120v_synthetic_entity_id (example_env [] [] []) ''sensor'' ''power'' ''Solar''
          15 None"
proof -
  have h: "construct_tabs_attribute (example_env [] [] []) = spec_construct_tabs_attribute"
    by (simp add: example_env_def)
  have v: "str_int (min 16 15) @ ''_'' @ str_int (max 16 15) = ''15_16''"
    by code_simp
  show ?thesis
    using h template_attributes_and_naming_path [OF h, of 16 15 "''power''"]
      template_attributes_and_naming_path [OF h, of 0 15 "''power''"]
    unfolding v by simp
qed

section \<open>The required-variable gate\<close>

lemma required_vars_fixed:
  "map required_vars SOLAR_SENSOR_DEFINITIONS =
     [[''leg1_power_entity'', ''leg2_power_entity''],
      [''leg1_produced_entity'', ''leg2_produced_entity''],
      [''leg1_consumed_entity'', ''leg2_consumed_entity'']]"
  by code_simp

lemma process_none_if_missing:
  assumes "\<exists>var \<in> set (required_vars sd). var_missing tv var"
  shows "fst (process_sensor_template env sd tv eid w) = Inr None"
  using assms by (simp add: process_sensor_template_def split: option.splits)

lemma generate_loop_all_missing:
  assumes "\<forall>sd \<in> set sds. \<exists>var \<in> set (required_vars sd). var_missing tv var"
  shows "fst (generate_loop env tv n1 n2 sds cfgs w) = cfgs"
  using assms
proof (induction sds arbitrary: cfgs w)
  case Nil
  then show ?case by simp
next
  case (Cons sd sds)
  have "fst (process_sensor_template env sd tv
               (generate_sensor_entity_id env (sensor_type sd) n1 n2) w) = Inr None"
    using Cons.prems by (intro process_none_if_missing) simp
  then obtain w1 where
    "process_sensor_template env sd tv
       (generate_sensor_entity_id env (sensor_type sd) n1 n2) w = (Inr None, w1)"
    by (metis prod.collapse)
  then show ?case
    using Cons by (simp add: Let_def)
qed

lemma leg_entities_dict:
  "fst (fst (get_leg_entities env n1 n2 w)) =
     [(''leg1_power_entity'',
         TStr (or_empty (if n1 > 0 then get_circuit_entity_id env n1 ''power'' else None))),
      (''leg1_produced_entity'',
         TStr (or_empty (if n1 > 0 then get_circuit_entity_id env n1 ''energy_produced''
                         else None))),
      (''leg1_consumed_entity'',
         TStr (or_empty (if n1 > 0 then get_circuit_entity_id env n1 ''energy_consumed''
                         else None))),
      (''leg2_power_entity'',
         TStr (or_empty (if n2 > 0 then get_circuit_entity_id env n2 ''power'' else None))),
      (''leg2_produced_entity'',
         TStr (or_empty (if n2 > 0 then get_circuit_entity_id env n2 ''energy_produced''
                         else None))),
      (''leg2_consumed_entity'',
         TStr (or_empty (if n2 > 0 then get_circuit_entity_id env n2 ''energy_consumed''
                         else None)))]"
  by (simp add: get_leg_entities_def leg_entity_ids_def Let_def split: prod.splits)

lemma template_vars_leg_lookup:
  assumes "le = [(''leg1_power_entity'', a1), (''leg1_produced_entity'', a2),
                 (''leg1_consumed_entity'', a3), (''leg2_power_entity'', b1),
                 (''leg2_produced_entity'', b2), (''leg2_consumed_entity'', b3)]"
  shows "map_of (solar_template_vars env l1 l2 ta va le) ''leg1_power_entity'' = Some a1"
    and "map_of (solar_template_vars env l1 l2 ta va le) ''leg1_produced_entity'' = Some a2"
    and "map_of (solar_template_vars env l1 l2 ta va le) ''leg1_consumed_entity'' = Some a3"
    and "map_of (solar_template_vars env l1 l2 ta va le) ''leg2_power_entity'' = Some b1"
    and "map_of (solar_template_vars env l1 l2 ta va le) ''leg2_produced_entity'' = Some b2"
    and "map_of (solar_template_vars env l1 l2 ta va le) ''leg2_consumed_entity'' = Some b3"
  unfolding assms solar_template_vars_def dict_merge_def
  by (simp_all add: update_conv')

text \<open>
  With one leg at 0, the three variables of that leg are the empty string, and each of
  the three definitions requires one of them.
\<close>

lemma single_leg_all_missing:
  assumes "(n1 > 0 \<and> n2 = 0) \<or> (n1 = 0 \<and> n2 > 0)"
  shows "\<forall>sd \<in> set SOLAR_SENSOR_DEFINITIONS. \<exists>var \<in> set (required_vars sd).
           var_missing
             (solar_template_vars env l1 l2 ta va (fst (fst (get_leg_entities env n1 n2 w))))
             var"
proof -
  let ?tv = "solar_template_vars env l1 l2 ta va (fst (fst (get_leg_entities env n1 n2 w)))"
  note lk = template_vars_leg_lookup [OF leg_entities_dict]
  have m: "(var_missing ?tv ''leg1_power_entity'' \<and> var_missing ?tv ''leg1_produced_entity''
            \<and> var_missing ?tv ''leg1_consumed_entity'')
         \<or> (var_missing ?tv ''leg2_power_entity'' \<and> var_missing ?tv ''leg2_produced_entity''
            \<and> var_missing ?tv ''leg2_consumed_entity'')"
    using assms by (auto simp: var_missing_def lk or_empty_def)
  have "\<forall>rv \<in> set (map required_vars SOLAR_SENSOR_DEFINITIONS).
          \<exists>var \<in> set rv. var_missing ?tv var"
    unfolding required_vars_fixed using m by auto
  then show ?thesis
    by simp
qed

text \<open>
  Claim C3. When exactly one extracted leg number is positive and the other is 0, the
  generator returns the empty sensor mapping: each of the three definitions is skipped,
  because a variable of the unconfigured leg is required and empty.
\<close>

theorem single_leg_generates_no_sensor:
  assumes "extract_leg_numbers l1 l2 = Inr (n1, n2)"
    and "(n1 > 0 \<and> n2 = 0) \<or> (n1 = 0 \<and> n2 > 0)"
  shows "fst (generate_solar_sensors env l1 l2 dn w) =
           Inr ([], [], fst (load_global_settings env w))"
proof -
  obtain gs w0 where g: "load_global_settings env w = (gs, w0)"
    by (cases "load_global_settings env w")
  obtain le req w1 where l: "get_leg_entities env n1 n2 w0 = ((le, req), w1)"
    by (metis prod.collapse)
  have le: "le = fst (fst (get_leg_entities env n1 n2 w0))"
    using l by simp
  have "fst (generate_loop env (solar_template_vars env l1 l2 ta va le) n1 n2
               SOLAR_SENSOR_DEFINITIONS [] w1) = []" for ta va
    unfolding le
    by (rule generate_loop_all_missing) (rule single_leg_all_missing [OF assms(2)])
  then have "generate_loop env (solar_template_vars env l1 l2 ta va le) n1 n2
               SOLAR_SENSOR_DEFINITIONS [] w1 = (c, w2) \<Longrightarrow> c = []" for ta va c w2
    by (metis fst_conv)
  then show ?thesis
    using assms g l
    by (auto simp: generate_solar_sensors_def Let_def split: prod.splits)
qed

theorem single_leg_generates_no_sensor_witness:
  "extract_leg_numbers ''unmapped_tab_15'' [] = Inr (15, 0)
   \<and> (((15 :: int) > 0 \<and> (0 :: int) = 0) \<or> ((15 :: int) = 0 \<and> (0 :: int) > 0))
   \<and> fst (generate_solar_sensors (example_env [] [] []) ''unmapped_tab_15'' [] ''Span Panel''
            example_world)
       = Inr ([], [], PDict [(''device_identifier'', PStr ''ABC123'')])"
proof -
  have h1: "extract_leg_numbers ''unmapped_tab_15'' [] = Inr (15, 0)"
    by code_simp
  have h2: "((15 :: int) > 0 \<and> (0 :: int) = 0) \<or> ((15 :: int) = 0 \<and> (0 :: int) > 0)"
    by simp
  have gs: "fst (load_global_settings (example_env [] [] []) example_world) =
              PDict [(''device_identifier'', PStr ''ABC123'')]"
    by code_simp
  show ?thesis
    using h1 h2
      single_leg_generates_no_sensor [OF h1 h2, of "example_env [] [] []" "''Span Panel''"
        example_world]
    unfolding gs by simp
qed

section \<open>The outcome of the template processor\<close>


lemma process_sensor_template_unfold:
  "fst (process_sensor_template env sd tv (Some eid) w) =
     (if eid = [] \<or> (\<exists>var \<in> set (required_vars sd). var_missing tv var) then Inr None
      else case render_outcome env sd tv eid w of
             Inl e \<Rightarrow> Inr None
           | Inr r \<Rightarrow>
               (case dict_lookup r ''sensor_configs'' of
                  None \<Rightarrow> Inr None
                | Some ts \<Rightarrow>
                    if \<not> truthy ts then Inr None
                    else (case final_sensor_config ts eid of
                            Inl e \<Rightarrow> Inl e | Inr cfg \<Rightarrow> Inr (Some cfg))))"
  by (auto simp: process_sensor_template_def render_outcome_def Let_def dict_lookup_def
        is_dict_def
      split: prod.splits sum.splits option.splits pyval.splits)




section \<open>The loop over the sensor definitions\<close>

lemma final_sensor_config_nonempty: "final_sensor_config ts eid = Inr cfg \<Longrightarrow> cfg \<noteq> []"
  by (auto simp: final_sensor_config_def split: pyval.splits list.splits prod.splits)

lemma process_some_nonempty:
  assumes "fst (process_sensor_template env sd tv entity_id w) = Inr (Some cfg)"
  shows "cfg \<noteq> []"
proof (cases entity_id)
  case None
  then show ?thesis using assms by (simp add: process_sensor_template_def)
next
  case (Some eid)
  then show ?thesis
    using assms final_sensor_config_nonempty
    unfolding Some process_sensor_template_unfold
    by (auto split: if_splits sum.splits option.splits)
qed

lemma generate_loop_single:
  "fst (generate_loop env tv n1 n2 [sd] cfgs w) =
     (case fst (process_sensor_template env sd tv
                  (generate_sensor_entity_id env (sensor_type sd) n1 n2) w) of
        Inr (Some cfg) \<Rightarrow> AList.update (solar_unique_id env sd) cfg cfgs
      | _ \<Rightarrow> cfgs)"
proof -
  obtain r w1 where p: "process_sensor_template env sd tv
                  (generate_sensor_entity_id env (sensor_type sd) n1 n2) w = (r, w1)"
    by (cases "process_sensor_template env sd tv
                  (generate_sensor_entity_id env (sensor_type sd) n1 n2) w")
  have "r = Inr (Some cfg) \<Longrightarrow> cfg \<noteq> []" for cfg
    using process_some_nonempty [of env sd tv _ w cfg] p by (metis fst_conv)
  then show ?thesis
    using p by (auto simp: Let_def solar_unique_id_def split: sum.splits option.splits)
qed

lemma generate_loop_append:
  "generate_loop env tv n1 n2 (xs @ ys) cfgs w =
     (case generate_loop env tv n1 n2 xs cfgs w of
        (cfgs', w') \<Rightarrow> generate_loop env tv n1 n2 ys cfgs' w')"
  by (induction xs arbitrary: cfgs w)
     (auto simp: Let_def split: prod.splits sum.splits option.splits)

lemma generate_loop_Cons:
  "generate_loop env tv n1 n2 (sd # sds) cfgs w =
     generate_loop env tv n1 n2 sds (fst (generate_loop env tv n1 n2 [sd] cfgs w))
       (snd (generate_loop env tv n1 n2 [sd] cfgs w))"
  using generate_loop_append [of env tv n1 n2 "[sd]" sds cfgs w]
  by (simp add: case_prod_unfold del: generate_loop.simps(2))

lemma generate_loop_world:
  "snd (generate_loop env tv n1 n2 sds cfgs w) = snd (generate_loop env tv n1 n2 sds cfgs' w)"
  by (induction sds arbitrary: cfgs cfgs' w)
     (auto simp: Let_def split: prod.splits sum.splits option.splits)

lemma generate_loop_other_key:
  assumes "k \<notin> solar_unique_id env ` set sds"
  shows "map_of (fst (generate_loop env tv n1 n2 sds cfgs w)) k = map_of cfgs k"
  using assms
proof (induction sds arbitrary: cfgs w)
  case Nil
  then show ?case by simp
next
  case (Cons sd sds)
  have "map_of (fst (generate_loop env tv n1 n2 [sd] cfgs w)) k = map_of cfgs k"
    using Cons.prems
    by (auto simp: generate_loop_single update_conv' simp del: generate_loop.simps(2)
        split: sum.splits option.splits)
  then show ?case
    using Cons by (subst generate_loop_Cons) (simp del: generate_loop.simps(2))
qed

lemma generate_loop_entry:
  assumes "distinct (map (solar_unique_id env) sds)" and "i < length sds"
  shows "map_of (fst (generate_loop env tv n1 n2 sds cfgs w)) (solar_unique_id env (sds ! i)) =
           (case sensor_outcome env tv n1 n2 sds i w of
              Inr (Some cfg) \<Rightarrow> Some cfg
            | _ \<Rightarrow> map_of cfgs (solar_unique_id env (sds ! i)))"
  using assms
proof (induction sds arbitrary: cfgs w i)
  case Nil
  then show ?case by simp
next
  case (Cons sd sds)
  let ?c1 = "fst (generate_loop env tv n1 n2 [sd] cfgs w)"
  let ?w1 = "snd (generate_loop env tv n1 n2 [sd] cfgs w)"
  show ?case
  proof (cases i)
    case 0
    have nk: "solar_unique_id env sd \<notin> solar_unique_id env ` set sds"
      using Cons.prems(1) by simp
    have "map_of (fst (generate_loop env tv n1 n2 (sd # sds) cfgs w)) (solar_unique_id env sd)
            = map_of ?c1 (solar_unique_id env sd)"
      by (subst generate_loop_Cons) (rule generate_loop_other_key [OF nk])
    then show ?thesis
      using 0
      by (simp add: generate_loop_single sensor_outcome_def world_before_def update_conv'
          del: generate_loop.simps(2) split: sum.splits option.splits)
  next
    case (Suc j)
    have d: "distinct (map (solar_unique_id env) sds)" and j: "j < length sds"
      using Cons.prems Suc by simp_all
    have ne: "solar_unique_id env (sds ! j) \<noteq> solar_unique_id env sd"
      using Cons.prems(1) nth_mem [OF j] by (metis distinct.simps(2) image_eqI list.simps(9) set_map)
    have w: "world_before env tv n1 n2 (sd # sds) i w = world_before env tv n1 n2 sds j ?w1"
      unfolding world_before_def Suc
      by (simp del: generate_loop.simps(2)) (metis generate_loop_Cons generate_loop_world)
    have o: "sensor_outcome env tv n1 n2 (sd # sds) i w = sensor_outcome env tv n1 n2 sds j ?w1"
      unfolding sensor_outcome_def w by (simp add: Suc)
    have c: "map_of ?c1 (solar_unique_id env (sds ! j)) = map_of cfgs (solar_unique_id env (sds ! j))"
      using ne
      by (auto simp: generate_loop_single update_conv' simp del: generate_loop.simps(2)
          split: sum.splits option.splits)
    show ?thesis
      unfolding o
      apply (subst generate_loop_Cons)
      apply (simp add: Suc Cons.IH [OF d j] c del: generate_loop.simps(2)
          split: sum.splits option.splits)
      done
  qed
qed


lemma generate_solar_sensors_loop:
  assumes "extract_leg_numbers l1 l2 = Inr (n1, n2)"
    and "get_leg_entities env n1 n2 (snd (load_global_settings env w)) = ((le, req), w1)"
    and "req \<noteq> []" and "[] \<notin> set req"
  shows "generate_solar_sensors env l1 l2 dn w =
           (Inr (fst (generate_loop env
                        (solar_template_vars env l1 l2 (fst (get_template_attributes env n1 n2))
                           (snd (get_template_attributes env n1 n2)) le)
                        n1 n2 SOLAR_SENSOR_DEFINITIONS [] w1),
                 [], fst (load_global_settings env w)),
            snd (generate_loop env
                        (solar_template_vars env l1 l2 (fst (get_template_attributes env n1 n2))
                           (snd (get_template_attributes env n1 n2)) le)
                        n1 n2 SOLAR_SENSOR_DEFINITIONS [] w1))"
proof -
  have nz: "\<not> (n1 = 0 \<and> n2 = 0)"
    using assms(2,3) by (auto simp: get_leg_entities_def leg_entity_ids_def)
  have f: "filter (\<lambda>entity. entity = []) req = []"
    using assms(4) by (auto simp: filter_empty_conv)
  show ?thesis
    using assms(1,2,3) nz f
    by (auto simp: generate_solar_sensors_def Let_def case_prod_unfold)
qed









section \<open>Failure isolation\<close>

text \<open>
  Claim C6. In a run that reaches the loop, each of the three definitions is processed on
  its own: the returned mapping holds the key of a definition, with the record the
  template processor returned for it, exactly when the processing of that very definition
  succeeded. A definition whose processing fails or raises is the only one absent on that
  account. The three unique ids are taken to be distinct.
\<close>

theorem sensor_failures_isolated:
  assumes "fst (generate_solar_sensors env l1 l2 dn w) = Inr (cfgs, backing, gs)"
    and "extract_leg_numbers l1 l2 = Inr (n1, n2)"
    and "get_leg_entities env n1 n2 (snd (load_global_settings env w)) = ((le, req), w1)"
    and "req \<noteq> []" and "[] \<notin> set req"
    and "tv = solar_template_vars env l1 l2 (fst (get_template_attributes env n1 n2))
                (snd (get_template_attributes env n1 n2)) le"
    and "distinct (map (solar_unique_id env) SOLAR_SENSOR_DEFINITIONS)"
    and "i < length SOLAR_SENSOR_DEFINITIONS"
  shows "map_of cfgs (solar_unique_id env (SOLAR_SENSOR_DEFINITIONS ! i)) =
           (case sensor_outcome env tv n1 n2 SOLAR_SENSOR_DEFINITIONS i w1 of
              Inr (Some cfg) \<Rightarrow> Some cfg
            | _ \<Rightarrow> None)"
proof -
  have "cfgs = fst (generate_loop env tv n1 n2 SOLAR_SENSOR_DEFINITIONS [] w1)"
    using assms(1) unfolding generate_solar_sensors_loop [OF assms(2-5)] assms(6) by simp
  then show ?thesis
    using generate_loop_entry [OF assms(7,8), of tv n1 n2 "[]" w1]
    by (simp split: sum.splits option.splits)
qed

theorem sensor_failures_isolated_witness:
  "fst (generate_solar_sensors (example_env [] [] [''power'']) ''unmapped_tab_15''
          ''unmapped_tab_16'' ''Span Panel'' example_world) =
     Inr ([(''ABC123_solar_energy_produced'',
              example_sensor ''sensor.span_panel_solar_15_16_energy_produced''),
           (''ABC123_solar_energy_consumed'',
              example_sensor ''sensor.span_panel_solar_15_16_energy_consumed'')],
          [], PDict [(''device_identifier'', PStr ''ABC123'')])
   \<and> extract_leg_numbers ''unmapped_tab_15'' ''unmapped_tab_16'' = Inr (15, 16)
   \<and> snd (fst (get_leg_entities (example_env [] [] [''power'']) 15 16
                 (snd (load_global_settings (example_env [] [] [''power'']) example_world))))
       \<noteq> []
   \<and> [] \<notin> set (snd (fst (get_leg_entities (example_env [] [] [''power'']) 15 16
                 (snd (load_global_settings (example_env [] [] [''power'']) example_world)))))
   \<and> distinct (map (solar_unique_id (example_env [] [] [''power''])) SOLAR_SENSOR_DEFINITIONS)
   \<and> 0 < length SOLAR_SENSOR_DEFINITIONS \<and> 1 < length SOLAR_SENSOR_DEFINITIONS
   \<and> map_of [(''ABC123_solar_energy_produced'',
                 example_sensor ''sensor.span_panel_solar_15_16_energy_produced''),
              (''ABC123_solar_energy_consumed'',
                 example_sensor ''sensor.span_panel_solar_15_16_energy_consumed'')]
         (solar_unique_id (example_env [] [] [''power'']) (SOLAR_SENSOR_DEFINITIONS ! 0)) = None
   \<and> map_of [(''ABC123_solar_energy_produced'',
                 example_sensor ''sensor.span_panel_solar_15_16_energy_produced''),
              (''ABC123_solar_energy_consumed'',
                 example_sensor ''sensor.span_panel_solar_15_16_energy_consumed'')]
         (solar_unique_id (example_env [] [] [''power'']) (SOLAR_SENSOR_DEFINITIONS ! 1))
       = Some (example_sensor ''sensor.span_panel_solar_15_16_energy_produced'')"
proof -
  let ?E = "example_env [] [] [''power'']"
  let ?X = "get_leg_entities ?E 15 16 (snd (load_global_settings ?E example_world))"
  let ?C = "[(''ABC123_solar_energy_produced'',
                 example_sensor ''sensor.span_panel_solar_15_16_energy_produced''),
              (''ABC123_solar_energy_consumed'',
                 example_sensor ''sensor.span_panel_solar_15_16_energy_consumed'')]"
  let ?T = "solar_template_vars ?E ''unmapped_tab_15'' ''unmapped_tab_16''
              (fst (get_template_attributes ?E 15 16)) (snd (get_template_attributes ?E 15 16))
              (fst (fst ?X))"
  have h1: "fst (generate_solar_sensors ?E ''unmapped_tab_15'' ''unmapped_tab_16''
                   ''Span Panel'' example_world) =
              Inr (?C, [], PDict [(''device_identifier'', PStr ''ABC123'')])"
    by code_simp
  have h2: "extract_leg_numbers ''unmapped_tab_15'' ''unmapped_tab_16'' = Inr (15, 16)"
    by code_simp
  have h3: "?X = ((fst (fst ?X), snd (fst ?X)), snd ?X)"
    by simp
  have h4: "snd (fst ?X) \<noteq> []"
    by code_simp
  have h5: "[] \<notin> set (snd (fst ?X))"
    by code_simp
  have h6: "?T = ?T"
    by simp
  have h7: "distinct (map (solar_unique_id ?E) SOLAR_SENSOR_DEFINITIONS)"
    by code_simp
  have h8: "0 < length SOLAR_SENSOR_DEFINITIONS" and h9: "1 < length SOLAR_SENSOR_DEFINITIONS"
    by (simp_all add: SOLAR_SENSOR_DEFINITIONS_def)
  have o0: "sensor_outcome ?E ?T 15 16 SOLAR_SENSOR_DEFINITIONS 0 (snd ?X) = Inr None"
    by code_simp
  have o1: "sensor_outcome ?E ?T 15 16 SOLAR_SENSOR_DEFINITIONS 1 (snd ?X) =
              Inr (Some (example_sensor ''sensor.span_panel_solar_15_16_energy_produced''))"
    by code_simp
  show ?thesis
    using h1 h2 h4 h5 h7 h8 h9
      sensor_failures_isolated [OF h1 h2 h3 h4 h5 h6 h7 h8]
      sensor_failures_isolated [OF h1 h2 h3 h4 h5 h6 h7 h9]
    unfolding o0 o1 by simp
qed

section \<open>Entries of the returned mapping\<close>







section \<open>Failures are logged, not raised\<close>













section \<open>Determinism\<close>

lemma await_combine_indep:
  assumes "\<forall>files vars s s'. fst (combine_yaml_templates env files vars s) =
                               fst (combine_yaml_templates env files vars s')"
  shows "fst (await_combine env files vars w) = fst (await_combine env files vars w')"
  using assms [rule_format, of files vars "render_state w" "render_state w'"]
  by (simp add: await_combine_def case_prod_unfold)

lemma process_sensor_template_indep:
  assumes "\<forall>files vars s s'. fst (combine_yaml_templates env files vars s) =
                               fst (combine_yaml_templates env files vars s')"
  shows "fst (process_sensor_template env sd tv entity_id w) =
         fst (process_sensor_template env sd tv entity_id w')"
proof (cases entity_id)
  case None
  then show ?thesis by (simp add: process_sensor_template_def)
next
  case (Some eid)
  have "render_outcome env sd tv eid w = render_outcome env sd tv eid w'"
    unfolding render_outcome_def by (rule await_combine_indep [OF assms])
  then show ?thesis
    unfolding Some process_sensor_template_unfold by simp
qed

lemma generate_loop_indep:
  assumes "\<forall>files vars s s'. fst (combine_yaml_templates env files vars s) =
                               fst (combine_yaml_templates env files vars s')"
  shows "fst (generate_loop env tv n1 n2 sds cfgs w) = fst (generate_loop env tv n1 n2 sds cfgs w')"
proof (induction sds arbitrary: cfgs w w')
  case Nil
  then show ?case by simp
next
  case (Cons sd sds)
  have "fst (generate_loop env tv n1 n2 [sd] cfgs w) = fst (generate_loop env tv n1 n2 [sd] cfgs w')"
    unfolding generate_loop_single
    using process_sensor_template_indep [OF assms, of sd tv _ w w'] by simp
  then show ?case
    using Cons [of "fst (generate_loop env tv n1 n2 [sd] cfgs w')"
                   "snd (generate_loop env tv n1 n2 [sd] cfgs w)"
                   "snd (generate_loop env tv n1 n2 [sd] cfgs w')"]
    by (simp add: generate_loop_Cons [of env tv n1 n2 sd sds] del: generate_loop.simps(2))
qed

lemma get_leg_entities_indep:
  "fst (get_leg_entities env n1 n2 w) = fst (get_leg_entities env n1 n2 w')"
  by (simp add: get_leg_entities_def leg_entity_ids_def Let_def)

lemma load_global_settings_indep:
  assumes "\<forall>files vars s s'. fst (combine_yaml_templates env files vars s) =
                               fst (combine_yaml_templates env files vars s')"
  shows "fst (load_global_settings env w) = fst (load_global_settings env w')"
proof -
  have "fst (await_combine env [] hp w) = fst (await_combine env [] hp w')" for hp
    by (rule await_combine_indep [OF assms])
  then show ?thesis
    unfolding load_global_settings_def Let_def
    by (auto simp: case_prod_unfold split: sum.splits option.splits)
qed

lemma generate_solar_sensors_fst:
  "fst (generate_solar_sensors env l1 l2 dn w) =
     (case extract_leg_numbers l1 l2 of
        Inl e \<Rightarrow> Inl e
      | Inr (n1, n2) \<Rightarrow>
          if n1 = 0 \<and> n2 = 0 then Inr ([], [], fst (load_global_settings env w))
          else
            (case fst (get_leg_entities env n1 n2 (snd (load_global_settings env w))) of
               (le, req) \<Rightarrow>
                 if req = [] \<or> filter (\<lambda>entity. entity = []) req \<noteq> []
                 then Inr ([], [], fst (load_global_settings env w))
                 else Inr (fst (generate_loop env
                                  (solar_template_vars env l1 l2
                                     (fst (get_template_attributes env n1 n2))
                                     (snd (get_template_attributes env n1 n2)) le)
                                  n1 n2 SOLAR_SENSOR_DEFINITIONS []
                                  (snd (get_leg_entities env n1 n2
                                          (snd (load_global_settings env w))))),
                           [], fst (load_global_settings env w))))"
  by (auto simp: generate_solar_sensors_def Let_def split: prod.splits sum.splits)

text \<open>
  Claim C10. When the renderer answers the same call in the same way whatever state it
  is in, the value the generator returns does not depend on the world it is started in:
  a second invocation with the same inputs, started in the world the first one left
  behind, returns the same sensor mapping, backing list and global settings.
\<close>

theorem generation_deterministic:
  assumes "\<forall>files vars s s'. fst (combine_yaml_templates env files vars s) =
                               fst (combine_yaml_templates env files vars s')"
  shows "fst (generate_solar_sensors env l1 l2 dn w') = fst (generate_solar_sensors env l1 l2 dn w)"
  unfolding generate_solar_sensors_fst
  using load_global_settings_indep [OF assms, of w' w]
    get_leg_entities_indep [of env _ _ "snd (load_global_settings env w')"
      "snd (load_global_settings env w)"]
    generate_loop_indep [OF assms]
  by (auto split: sum.splits prod.splits)


theorem generation_deterministic_witness:
  "(\<forall>files vars s s'.
      fst (combine_yaml_templates (example_env [] [] []) files vars s) =
      fst (combine_yaml_templates (example_env [] [] []) files vars s'))
   \<and> snd (generate_solar_sensors (example_env [] [] []) ''unmapped_tab_15''
             ''unmapped_tab_16'' ''Span Panel'' example_world)
       = \<lparr>render_state = 4, log = []\<rparr>
   \<and> fst (generate_solar_sensors (example_env [] [] []) ''unmapped_tab_15''
             ''unmapped_tab_16'' ''Span Panel'' \<lparr>render_state = 4, log = []\<rparr>)
       = fst (generate_solar_sensors (example_env [] [] []) ''unmapped_tab_15''
             ''unmapped_tab_16'' ''Span Panel'' example_world)"
proof -
  have h: "\<forall>files vars s s'.
      fst (combine_yaml_templates (example_env [] [] []) files vars s) =
      fst (combine_yaml_templates (example_env [] [] []) files vars s')"
    by (simp add: example_env_def example_render_def split: list.splits)
  have w: "snd (generate_solar_sensors (example_env [] [] []) ''unmapped_tab_15''
             ''unmapped_tab_16'' ''Span Panel'' example_world)
       = \<lparr>render_state = 4, log = []\<rparr>"
    by code_simp
  show ?thesis
    using h w
      generation_deterministic [OF h, of "''unmapped_tab_15''" "''unmapped_tab_16''" "''Span Panel''"
        "\<lparr>render_state = 4, log = []\<rparr>" example_world]
    by simp
qed

end
